theory Spec2Isabelle
  imports Main "HOL-Library.Sublist"
begin

section \<open>Company-profile aggregator: a shallow embedding of the Python sources\<close>

text \<open>
  The development follows the Python modules \<^verbatim>\<open>dispute.py\<close>, \<^verbatim>\<open>get_sec.py\<close>,
  \<^verbatim>\<open>utils.py\<close>, \<^verbatim>\<open>layoff.py\<close>, \<^verbatim>\<open>h1b.py\<close>, \<^verbatim>\<open>jobsearch.py\<close> and
  \<^verbatim>\<open>stock_app.py\<close>. Python strings are \<^typ>\<open>string\<close>; a \<^typ>\<open>char\<close> stands for a
  code point in the range U+0000 .. U+00FF. An exception is a value \<open>Exn cls msg\<close> of type
  \<open>exn\<close>; a function that may raise returns \<open>exn + 'a\<close> with \<open>Inl\<close> for the raise.
\<close>

subsection \<open>Exceptions\<close>

datatype exn_class =
    AttributeError | TypeError | ValueError | IndexError | KeyError | NameError
  | UnboundLocalError | OSError | JSONDecodeError | RetryError | OtherError

datatype exn = Exn exn_class string


subsection \<open>String primitives (\<^verbatim>\<open>str.strip\<close>, \<^verbatim>\<open>str.endswith\<close>)\<close>

definition isspace :: "char \<Rightarrow> bool" where
  \<comment> \<open>The code points below U+0100 that \<^verbatim>\<open>str.strip()\<close> removes: TAB, LF, VT, FF, CR,
      FS, GS, RS, US, SPACE, NEL (U+0085) and NBSP (U+00A0).\<close>
  "isspace c = (of_char c \<in> {9, 10, 11, 12, 13, 28, 29, 30, 31, 32, 133, 160 :: nat})"

definition lstrip :: "string \<Rightarrow> string" where
  "lstrip s = dropWhile isspace s"

definition rstrip :: "string \<Rightarrow> string" where
  "rstrip s = rev (dropWhile isspace (rev s))"

definition strip :: "string \<Rightarrow> string" where
  "strip s = rstrip (lstrip s)"

definition endswith :: "string \<Rightarrow> string \<Rightarrow> bool" where
  \<comment> \<open>\<^verbatim>\<open>s.endswith(t)\<close>\<close>
  "endswith s t = suffix t s"

definition drop_last :: "nat \<Rightarrow> string \<Rightarrow> string" where
  \<comment> \<open>The slice \<^verbatim>\<open>s[:-k]\<close> for \<open>k > 0\<close>; it is empty when \<open>k\<close> is at least \<open>len(s)\<close>.\<close>
  "drop_last k s = take (length s - k) s"

subsection \<open>\<^verbatim>\<open>dispute.py\<close>: \<^verbatim>\<open>CourtListenerAPI._normalize_company_name\<close>\<close>

definition suffixes :: "string list" where
  "suffixes =
     [''Inc'', ''Inc.'', ''Incorporated'',
      ''Corp'', ''Corp.'', ''Corporation'',
      ''LLC'', ''L.L.C.'', ''Limited Liability Company'',
      ''Ltd'', ''Ltd.'', ''Limited'',
      ''Co'', ''Co.'', ''Company'']"

definition matching_suffix :: "string \<Rightarrow> string option" where
  \<comment> \<open>The suffix at which the first \<^verbatim>\<open>for\<close> loop breaks: the first entry of the list,
      in list order, with \<^verbatim>\<open>name.endswith(f" {suffix}")\<close>; \<open>None\<close> when the loop runs
      to its end.\<close>
  "matching_suffix name = find (\<lambda>sfx. endswith name (CHR '' '' # sfx)) suffixes"

definition base_name_of :: "string \<Rightarrow> string" where
  \<comment> \<open>The value of \<^verbatim>\<open>base_name\<close> after the first loop, for the stripped \<^verbatim>\<open>name\<close>.\<close>
  "base_name_of name =
     (case matching_suffix name of
        None \<Rightarrow> name
      | Some sfx \<Rightarrow> strip (drop_last (length sfx) name))"

definition base_name :: "string \<Rightarrow> string" where
  \<comment> \<open>\<^verbatim>\<open>base_name\<close> as a function of the argument \<^verbatim>\<open>company_name\<close>.\<close>
  "base_name company_name = base_name_of (strip company_name)"

definition quoted :: "string \<Rightarrow> string" where
  "quoted s = [CHR 0x22] @ s @ [CHR 0x22]"

definition variants_of :: "string \<Rightarrow> string list" where
  \<comment> \<open>The list \<^verbatim>\<open>variants\<close> before duplicates are removed.\<close>
  "variants_of company_name =
     (let name = strip company_name;
          base = base_name_of name
      in [name, base, quoted name, quoted base]
         @ map (\<lambda>sfx. base @ '' '' @ sfx) suffixes)"

definition normalize_company_name :: "string \<Rightarrow> string list" where
  \<comment> \<open>\<^verbatim>\<open>list(set(variants))\<close>: the variants without duplicates. Python leaves the order of
      the result unspecified; the statements below are about membership and emptiness only.\<close>
  "normalize_company_name company_name = remdups (variants_of company_name)"

definition is_stripped :: "string \<Rightarrow> bool" where
  \<comment> \<open>A string that \<^verbatim>\<open>strip()\<close> leaves alone: empty, or with no white space at either end.\<close>
  "is_stripped s = (s = [] \<or> (\<not> isspace (hd s) \<and> \<not> isspace (last s)))"

subsection \<open>\<^verbatim>\<open>fuzzywuzzy.process\<close> and pandas columns\<close>

text \<open>
  The similarity metric of the fuzzywuzzy library (\<^verbatim>\<open>WRatio\<close> after \<^verbatim>\<open>full_process\<close>) is
  a parameter \<open>scorer query choice\<close> of every function that matches names.
  \<^verbatim>\<open>process.extract(query, choices)\<close>, here \<open>process_extract\<close>, scores every
  choice, orders the pairs by descending
  score, equal scores in their original order, and keeps the first five (\<^verbatim>\<open>limit=5\<close>).
  \<^verbatim>\<open>process.extractOne\<close> is \<^verbatim>\<open>max(..., key=score)\<close>, the first pair of maximal score,
  and \<^verbatim>\<open>None\<close> when there is no choice.
\<close>

type_synonym scorer = "string \<Rightarrow> string \<Rightarrow> nat"

definition extractWithoutOrder ::
    "scorer \<Rightarrow> string \<Rightarrow> string list \<Rightarrow> (string \<times> nat) list" where
  "extractWithoutOrder scorer query choices =
     map (\<lambda>choice. (choice, scorer query choice)) choices"

definition process_extract :: "scorer \<Rightarrow> string \<Rightarrow> string list \<Rightarrow> (string \<times> nat) list" where
  "process_extract scorer query choices =
     take 5 (sort_key (\<lambda>m. - int (snd m)) (extractWithoutOrder scorer query choices))"

definition extractOne :: "scorer \<Rightarrow> string \<Rightarrow> string list \<Rightarrow> (string \<times> nat) option" where
  "extractOne scorer query choices =
     (case extractWithoutOrder scorer query choices of
        [] \<Rightarrow> None
      | m # ms \<Rightarrow> Some (foldl (\<lambda>best i. if snd best < snd i then i else best) m ms))"

datatype cell = NaN | Str string

type_synonym 'a table = "(cell \<times> 'a) list"
  \<comment> \<open>A data frame, row by row: the cell of the company-name column, and the rest of the row.\<close>

fun dropna :: "cell list \<Rightarrow> string list" where
  "dropna [] = []"
| "dropna (NaN # cs) = dropna cs"
| "dropna (Str s # cs) = s # dropna cs"

definition unique :: "'a list \<Rightarrow> 'a list" where
  \<comment> \<open>\<^verbatim>\<open>Series.unique()\<close>, and the keys of a dict built by insertion: each value once, in
      the order of first appearance.\<close>
  "unique xs = rev (remdups (rev xs))"

definition names_column :: "'a table \<Rightarrow> string list" where
  \<comment> \<open>\<^verbatim>\<open>df[col].dropna().unique()\<close>\<close>
  "names_column df = unique (dropna (map fst df))"

subsection \<open>\<^verbatim>\<open>utils.py\<close>: \<^verbatim>\<open>get_ticker\<close>\<close>

definition get_ticker :: "scorer \<Rightarrow> exn + cell table \<Rightarrow> string \<Rightarrow> exn + cell option" where
  \<comment> \<open>\<open>companies_csv\<close> is what \<^verbatim>\<open>pd.read_csv("data/companies.csv")\<close> does: it raises or
      gives the rows (title, ticker). The result \<open>Inr None\<close> is Python's \<^verbatim>\<open>None\<close>. With
      \<^verbatim>\<open>matched_row\<close> empty the local \<^verbatim>\<open>ticker\<close> is not assigned and the
      \<^verbatim>\<open>return\<close> raises.\<close>
  "get_ticker scorer companies_csv input_company =
     (case companies_csv of
        Inl e \<Rightarrow> Inl e
      | Inr stock_name \<Rightarrow>
          (let company_names = names_column stock_name;
               matches = process_extract scorer input_company company_names
           in case matches of
                [] \<Rightarrow> Inr None
              | m # _ \<Rightarrow>
                  (let best_match = fst m;
                       matched_row = filter (\<lambda>r. fst r = Str best_match) stock_name
                   in case matched_row of
                        r # _ \<Rightarrow> Inr (Some (snd r))
                      | [] \<Rightarrow> Inl (Exn UnboundLocalError
                                 ''local variable ticker referenced before assignment''))))"

subsection \<open>\<^verbatim>\<open>layoff.py\<close> and \<^verbatim>\<open>h1b.py\<close>\<close>

definition layoffs :: "scorer \<Rightarrow> exn + 'a table \<Rightarrow> string \<Rightarrow> exn + 'a table option" where
  \<comment> \<open>\<open>warn_xlsx\<close> is what \<^verbatim>\<open>pd.read_excel("data/filtered_WARN_data.xlsx")\<close> does.
      \<^verbatim>\<open>matched_names[0]\<close> raises on the empty list.\<close>
  "layoffs scorer warn_xlsx company_name =
     (case warn_xlsx of
        Inl e \<Rightarrow> Inl e
      | Inr df \<Rightarrow>
          (let unique_names = names_column df;
               matches = process_extract scorer company_name unique_names
           in if matches \<noteq> [] then
                (let matched_names = map fst (filter (\<lambda>m. 80 \<le> snd m) matches)
                 in case matched_names of
                      [] \<Rightarrow> Inl (Exn IndexError ''list index out of range'')
                    | target # _ \<Rightarrow> Inr (Some (filter (\<lambda>r. fst r = Str target) df)))
              else Inr None))"


subsection \<open>\<^verbatim>\<open>get_sec.py\<close>: the ticker cache and \<^verbatim>\<open>get_ticker_or_cik\<close>\<close>

datatype json =
    JNull
  | JBool bool
  | JNum int
  | JFloat string   \<comment> \<open>a number with a fraction or an exponent, by its literal\<close>
  | JStr string
  | JArr "json list"
  | JObj "(string \<times> json) list"

datatype cache_file =
    NoFile        \<comment> \<open>\<^verbatim>\<open>os.path.exists(CACHE_FILE)\<close> is false\<close>
  | Unreadable    \<comment> \<open>the file exists and \<^verbatim>\<open>open\<close> raises\<close>
  | Malformed     \<comment> \<open>the file opens and \<^verbatim>\<open>json.load\<close> raises\<close>
  | Parsed json   \<comment> \<open>the file opens and \<^verbatim>\<open>json.load\<close> returns this value\<close>

datatype datetime =
    Naive int     \<comment> \<open>microseconds since the epoch, no time zone\<close>
  | Aware int     \<comment> \<open>a time with a UTC offset\<close>

definition dict_get :: "(string \<times> json) list \<Rightarrow> string \<Rightarrow> json" where
  \<comment> \<open>\<^verbatim>\<open>data.get(key)\<close>: \<^verbatim>\<open>None\<close>, which is \<open>JNull\<close>, for a missing key.\<close>
  "dict_get items k = (case map_of items k of None \<Rightarrow> JNull | Some v \<Rightarrow> v)"

definition CACHE_DURATION :: int where
  \<comment> \<open>\<^verbatim>\<open>timedelta(days=7)\<close>, in microseconds\<close>
  "CACHE_DURATION = 7 * 24 * 3600 * 1000000"

definition load_cache :: "(string \<Rightarrow> datetime option) \<Rightarrow> cache_file \<Rightarrow> int \<Rightarrow> exn + json" where
  \<comment> \<open>\<open>fromisoformat\<close> is \<^verbatim>\<open>datetime.fromisoformat\<close> on a string, \<open>None\<close> where it raises
      \<^verbatim>\<open>ValueError\<close>; \<open>now\<close> is \<^verbatim>\<open>datetime.now()\<close>, a naive time. The result
      \<open>Inr JNull\<close> is the \<^verbatim>\<open>return None\<close> of the last line.\<close>
  "load_cache fromisoformat file now =
     (case file of
        NoFile \<Rightarrow> Inr JNull
      | Unreadable \<Rightarrow> Inl (Exn OSError ''cannot open company_tickers_cache.json'')
      | Malformed \<Rightarrow> Inl (Exn JSONDecodeError ''Expecting value'')
      | Parsed data \<Rightarrow>
          (case data of
             JObj items \<Rightarrow>
               (case dict_get items ''timestamp'' of
                  JStr s \<Rightarrow>
                    (case fromisoformat s of
                       None \<Rightarrow> Inl (Exn ValueError ''Invalid isoformat string'')
                     | Some (Naive cache_time) \<Rightarrow>
                         if now - cache_time < CACHE_DURATION
                         then Inr (dict_get items ''companies'')
                         else Inr JNull
                     | Some (Aware cache_time) \<Rightarrow>
                         Inl (Exn TypeError
                           ''cannot subtract offset-naive and offset-aware datetimes''))
                | _ \<Rightarrow> Inl (Exn TypeError ''fromisoformat: argument must be str''))
           | _ \<Rightarrow> Inl (Exn AttributeError ''object has no attribute get'')))"

definition save_cache :: "(int \<Rightarrow> string) \<Rightarrow> json \<Rightarrow> int \<Rightarrow> cache_file" where
  \<comment> \<open>The file after \<^verbatim>\<open>save_cache(companies)\<close> at time \<open>now\<close>; \<open>isoformat\<close> is
      \<^verbatim>\<open>datetime.isoformat\<close>.\<close>
  "save_cache isoformat companies now =
     Parsed (JObj [(''timestamp'', JStr (isoformat now)), (''companies'', companies)])"

record sec_company =
  cik_str :: int
  ticker :: string
  title :: string

definition companies_of :: "(string \<times> sec_company) list \<Rightarrow> (string \<times> int) list" where
  \<comment> \<open>The dict comprehension \<^verbatim>\<open>{data['title']: data['cik_str'] for data in ...}\<close>, as
      the sequence of its insertions.\<close>
  "companies_of company_data =
     map (\<lambda>data. (title (snd data), cik_str (snd data))) company_data"

definition keys :: "('k \<times> 'v) list \<Rightarrow> 'k list" where
  \<comment> \<open>\<^verbatim>\<open>d.keys()\<close> of the dict built by these insertions: first-insertion order.\<close>
  "keys insertions = unique (map fst insertions)"

definition lookup :: "('k \<times> 'v) list \<Rightarrow> 'k \<Rightarrow> 'v option" where
  \<comment> \<open>\<^verbatim>\<open>d[k]\<close> of the dict built by these insertions: the last value inserted under the
      key, \<open>None\<close> where Python raises \<^verbatim>\<open>KeyError\<close>.\<close>
  "lookup insertions k = map_of (rev insertions) k"

definition get_ticker_or_cik ::
    "scorer \<Rightarrow> (string \<times> sec_company) list option \<Rightarrow> string \<Rightarrow> exn + (string \<times> int) option" where
  \<comment> \<open>\<open>company_data\<close> is the value of \<^verbatim>\<open>get_company_data()\<close>: \<open>None\<close>, or the items of
      the SEC dictionary. The result \<open>Inr None\<close> is the pair \<^verbatim>\<open>(None, None)\<close>.\<close>
  "get_ticker_or_cik scorer company_data company_name =
     (case company_data of
        None \<Rightarrow> Inr None
      | Some entries \<Rightarrow>
          if entries = [] then Inr None
          else
            (let companies = companies_of entries
             in case extractOne scorer company_name (keys companies) of
                  None \<Rightarrow> Inl (Exn TypeError ''cannot unpack non-iterable NoneType object'')
                | Some (match, score) \<Rightarrow>
                    if 70 < score then
                      (case lookup companies match of
                         None \<Rightarrow> Inl (Exn KeyError match)
                       | Some cik \<Rightarrow> Inr (Some (match, cik)))
                    else Inr None))"

subsection \<open>\<^verbatim>\<open>jobsearch.py\<close>: \<^verbatim>\<open>get_company_jobs\<close>\<close>

text \<open>
  \<^verbatim>\<open>@retry(stop=stop_after_attempt(3), wait=wait_exponential(...))\<close> of the tenacity
  library calls the function again after every exception, sleeping in between, and raises
  \<^verbatim>\<open>RetryError\<close> around the last exception once the attempt that failed is the third.
  The wrapped call is a live scrape: \<open>fn k\<close> is what its \<open>k\<close>-th call does. The result
  carries the number of calls made; the sleeps are not modelled.
\<close>

datatype retry_error = RetryError_of exn

fun retrying :: "nat \<Rightarrow> (nat \<Rightarrow> exn + 'a) \<Rightarrow> nat \<Rightarrow> (retry_error + 'a) \<times> nat" where
  \<comment> \<open>\<open>retrying left fn attempt_number\<close>: the loop at attempt \<open>attempt_number\<close>, with \<open>left\<close>
      further attempts allowed after it.\<close>
  "retrying 0 fn attempt_number =
     (case fn attempt_number of
        Inr v \<Rightarrow> (Inr v, attempt_number)
      | Inl e \<Rightarrow> (Inl (RetryError_of e), attempt_number))"
| "retrying (Suc left) fn attempt_number =
     (case fn attempt_number of
        Inr v \<Rightarrow> (Inr v, attempt_number)
      | Inl e \<Rightarrow> retrying left fn (Suc attempt_number))"

definition stop_after_attempt :: "nat \<Rightarrow> (nat \<Rightarrow> exn + 'a) \<Rightarrow> (retry_error + 'a) \<times> nat" where
  "stop_after_attempt max_attempt_number fn = retrying (max_attempt_number - 1) fn 1"

definition get_company_jobs ::
    "(nat \<Rightarrow> exn + 'a table option) \<Rightarrow> (exn + 'a table option) \<times> nat" where
  \<comment> \<open>\<open>job_search k\<close> is the \<open>k\<close>-th call of \<^verbatim>\<open>get_filtered_company_jobs\<close>. The
      \<^verbatim>\<open>except Exception\<close> returns \<^verbatim>\<open>pd.DataFrame()\<close>, the empty frame.\<close>
  "get_company_jobs job_search =
     (case stop_after_attempt 3 job_search of
        (Inr jobs, attempts) \<Rightarrow> (Inr jobs, attempts)
      | (Inl e, attempts) \<Rightarrow> (Inr (Some []), attempts))"

subsection \<open>\<^verbatim>\<open>stock_app.py\<close>: \<^verbatim>\<open>StockApp.fetch_all_data\<close>\<close>

text \<open>
  The sources that \<^verbatim>\<open>fetch_all_data\<close> reads are the fields of a record: the three data
  files, the scorer, and what each network call does for its arguments.
  \<^verbatim>\<open>fetch_stock_data\<close> and \<^verbatim>\<open>fetch_historical_data\<close> catch every exception themselves
  and return \<^verbatim>\<open>(False, {"error": msg})\<close>, here \<open>Inl msg\<close>, or \<^verbatim>\<open>(True, data)\<close>,
  here \<open>Inr data\<close>. \<^verbatim>\<open>get_info\<close> and \<^verbatim>\<open>get_summary\<close> raise, or return the text of
  the summarizer, or return \<^verbatim>\<open>None\<close> when the summarizer has failed. The built-ins
  \<^verbatim>\<open>str.upper\<close> and \<^verbatim>\<open>str.isalnum\<close> are fields as well.

  A user-interface call that the worker makes or schedules is a value of \<open>ui_action\<close>. Two
  kinds of scheduled \<^verbatim>\<open>lambda\<close> raise when the main loop runs them and display nothing:
  \<^verbatim>\<open>lambda: self.clear_layoff_tab()\<close>, since the class \<^verbatim>\<open>StockApp\<close> defines no method
  \<^verbatim>\<open>clear_layoff_tab\<close>, and a \<^verbatim>\<open>lambda\<close> that reads a local variable of the worker
  that was never assigned.
\<close>

type_synonym pydict = "(string \<times> string) list"
type_synonym sheet = "string list table"

record sources =
  fuzz_scorer :: scorer
  companies_csv :: "exn + cell table"
  h1b_xlsx :: "exn + sheet"
  warn_xlsx :: "exn + sheet"
  fetch_stock_data :: "string \<Rightarrow> string + pydict"
  fetch_historical_data :: "string \<Rightarrow> string + pydict"
  get_filtered_company_jobs :: "string \<Rightarrow> string \<Rightarrow> exn + sheet option"
  get_info :: "string \<Rightarrow> exn + string option"
  get_summary :: "string \<Rightarrow> exn + string option"
  str_upper :: "string \<Rightarrow> string"
  str_isalnum :: "string \<Rightarrow> bool"











section \<open>Properties\<close>

subsection \<open>White space\<close>

lemma rstrip_last: "rstrip s \<noteq> [] \<Longrightarrow> \<not> isspace (last (rstrip s))"
  unfolding rstrip_def by (simp add: last_rev hd_dropWhile)

lemma rstrip_prefix: "prefix (rstrip s) s"
proof -
  have "suffix (dropWhile isspace (rev s)) (rev s)"
    by (rule suffix_dropWhile)
  then show ?thesis
    unfolding rstrip_def by (metis rev_rev_ident suffix_to_prefix)
qed

lemma rstrip_hd: "rstrip s \<noteq> [] \<Longrightarrow> hd (rstrip s) = hd s"
  using rstrip_prefix [of s] by (metis hd_append2 prefix_def)

lemma lstrip_hd: "lstrip s \<noteq> [] \<Longrightarrow> \<not> isspace (hd (lstrip s))"
  unfolding lstrip_def by (simp add: hd_dropWhile)

lemma is_stripped_strip: "is_stripped (strip s)"
proof (cases "strip s = []")
  case True
  then show ?thesis by (simp add: is_stripped_def)
next
  case False
  then have ne: "rstrip (lstrip s) \<noteq> []" by (simp add: strip_def)
  then have "lstrip s \<noteq> []" by (auto simp: rstrip_def)
  with ne show ?thesis
    by (simp add: is_stripped_def strip_def rstrip_last rstrip_hd lstrip_hd)
qed

lemma strip_id: "is_stripped s \<Longrightarrow> strip s = s"
proof (cases "s = []")
  case True
  then show ?thesis by (simp add: strip_def lstrip_def rstrip_def)
next
  case False
  assume "is_stripped s"
  with False have h: "\<not> isspace (hd s)" and l: "\<not> isspace (last s)"
    by (auto simp: is_stripped_def)
  from False h have "lstrip s = s"
    by (cases s) (simp_all add: lstrip_def)
  moreover from False l have "rstrip s = s"
    by (cases "rev s") (simp_all add: rstrip_def last_rev [symmetric] hd_rev)
  ultimately show ?thesis by (simp add: strip_def)
qed

lemma length_strip: "length (strip s) \<le> length s"
proof -
  have "length (rstrip (lstrip s)) \<le> length (lstrip s)"
    unfolding rstrip_def by (simp add: length_dropWhile_le [THEN order_trans])
  also have "\<dots> \<le> length s"
    unfolding lstrip_def by (rule length_dropWhile_le)
  finally show ?thesis by (simp add: strip_def)
qed

subsection \<open>Name normalisation\<close>

lemma is_stripped_base_name_of: "is_stripped name \<Longrightarrow> is_stripped (base_name_of name)"
  by (simp add: base_name_of_def is_stripped_strip split: option.split)

lemma is_stripped_base_name: "is_stripped (base_name raw)"
  by (simp add: base_name_def is_stripped_base_name_of is_stripped_strip)

lemma suffixes_nonempty: "sfx \<in> set suffixes \<Longrightarrow> sfx \<noteq> []"
  by (auto simp: suffixes_def)

lemma matching_suffix_Some:
  assumes "matching_suffix name = Some sfx"
  shows "sfx \<noteq> [] \<and> length sfx < length name"
proof -
  from assms have mem: "sfx \<in> set suffixes" and e: "endswith name (CHR '' '' # sfx)"
    by (auto simp: matching_suffix_def find_Some_iff)
  from e have "length (CHR '' '' # sfx) \<le> length name"
    unfolding endswith_def by (rule suffix_length_le)
  with mem show ?thesis by (simp add: suffixes_nonempty)
qed

lemma base_name_of_shorter:
  assumes "matching_suffix name = Some sfx"
  shows "length (base_name_of name) < length name"
proof -
  from matching_suffix_Some [OF assms]
  have "length (drop_last (length sfx) name) < length name"
    by (cases sfx) (auto simp: drop_last_def)
  moreover
  have "length (strip (drop_last (length sfx) name)) \<le> length (drop_last (length sfx) name)"
    by (rule length_strip)
  ultimately show ?thesis using assms by (simp add: base_name_of_def)
qed

text \<open>
  Claim C7, as amended. The list of variants is never empty and always contains the input
  with its leading and trailing white space removed, the string the source calls the
  original name; it contains the raw input itself whenever the raw input has no white space
  at either end.
\<close>

theorem normalize_company_name_keeps_stripped:
  "normalize_company_name raw \<noteq> []
   \<and> strip raw \<in> set (normalize_company_name raw)
   \<and> (is_stripped raw \<longrightarrow> raw \<in> set (normalize_company_name raw))"
proof -
  have "strip raw \<in> set (variants_of raw)"
    by (simp add: variants_of_def Let_def)
  then have m: "strip raw \<in> set (normalize_company_name raw)"
    by (simp add: normalize_company_name_def)
  then have "normalize_company_name raw \<noteq> []" by auto
  with m show ?thesis by (auto simp: strip_id)
qed

theorem normalize_company_name_keeps_stripped_witness:
  "is_stripped ''Acme Inc'' \<and> ''Acme Inc'' \<in> set (normalize_company_name ''Acme Inc'')"
proof -
  have s: "is_stripped ''Acme Inc''" by code_simp
  with normalize_company_name_keeps_stripped [of "''Acme Inc''"] show ?thesis by simp
qed

text \<open>
  Claim C7 as stated fails on an input typed with a leading blank: the raw string is not
  among the variants.
\<close>

theorem normalize_company_name_drops_raw:
  "'' Acme'' \<noteq> [] \<and> '' Acme'' \<notin> set (normalize_company_name '' Acme'')"
  by code_simp

text \<open>
  Claim C9, as amended. One application removes one suffix: the base form of a name is
  left unchanged by a second normalisation exactly when it does not itself end in a blank
  followed by a listed suffix.
\<close>

theorem base_name_fixed_iff:
  "(base_name (base_name raw) = base_name raw) = (matching_suffix (base_name raw) = None)"
proof (cases "matching_suffix (base_name raw)")
  case None
  then show ?thesis
    by (simp add: base_name_def [of "base_name raw"] strip_id is_stripped_base_name
        base_name_of_def)
next
  case (Some sfx)
  have "base_name (base_name raw) = base_name_of (base_name raw)"
    by (simp add: base_name_def [of "base_name raw"] strip_id is_stripped_base_name)
  with base_name_of_shorter [OF Some]
  have "length (base_name (base_name raw)) < length (base_name raw)"
    by simp
  with Some show ?thesis by auto
qed

theorem base_name_fixed_iff_witness:
  "matching_suffix (base_name ''Acme Inc'') = None
   \<and> base_name (base_name ''Acme Inc'') = base_name ''Acme Inc''"
proof -
  have "matching_suffix (base_name ''Acme Inc'') = None" by code_simp
  with base_name_fixed_iff [of "''Acme Inc''"] show ?thesis by simp
qed

text \<open>
  Claim C9 as stated fails on a name that carries two suffixes: the second normalisation
  strips again.
\<close>

theorem base_name_not_idempotent:
  "base_name ''Acme Co Inc'' = ''Acme Co'' \<and> base_name (base_name ''Acme Co Inc'') = ''Acme''"
  by code_simp

subsection \<open>Fuzzy matching\<close>

lemma set_dropna: "set (dropna cs) = {s. Str s \<in> set cs}"
  by (induction cs rule: dropna.induct) auto

lemma set_unique: "set (unique xs) = set xs"
  by (simp add: unique_def)

lemma set_names_column: "set (names_column df) = {s. Str s \<in> fst ` set df}"
  by (simp add: names_column_def set_unique set_dropna)

lemma names_column_nonempty: "(names_column df \<noteq> []) = (\<exists>r \<in> set df. fst r \<noteq> NaN)"
proof -
  have "(names_column df \<noteq> []) = (set (names_column df) \<noteq> {})" by simp
  also have "\<dots> = (\<exists>s. Str s \<in> fst ` set df)" by (auto simp: set_names_column)
  also have "\<dots> = (\<exists>r \<in> set df. fst r \<noteq> NaN)"
    by (metis cell.exhaust cell.distinct(1) imageE image_eqI)
  finally show ?thesis .
qed

lemma process_extract_Nil: "(process_extract scorer q choices = []) = (choices = [])"
proof -
  have "length (process_extract scorer q choices) = min (length choices) 5"
    by (simp add: process_extract_def extractWithoutOrder_def)
  then have "(length (process_extract scorer q choices) = 0) = (length choices = 0)"
    by arith
  then show ?thesis by simp
qed

lemma set_process_extract:
  "set (process_extract scorer q choices) \<subseteq> (\<lambda>c. (c, scorer q c)) ` set choices"
proof -
  have "set (process_extract scorer q choices)
      \<subseteq> set (sort_key (\<lambda>m. - int (snd m)) (extractWithoutOrder scorer q choices))"
    unfolding process_extract_def by (rule set_take_subset)
  then show ?thesis by (simp add: extractWithoutOrder_def)
qed

lemma process_extract_head_max:
  assumes "process_extract scorer q choices = (best, score) # rest"
  shows "best \<in> set choices \<and> score = scorer q best
         \<and> (\<forall>c \<in> set choices. scorer q c \<le> score)"
proof -
  let ?key = "\<lambda>m :: string \<times> nat. - int (snd m)"
  let ?all = "sort_key ?key (extractWithoutOrder scorer q choices)"
  from assms have "(best, score) \<in> set (process_extract scorer q choices)" by simp
  with set_process_extract have mem: "best \<in> set choices \<and> score = scorer q best"
    by fastforce
  from assms obtain rest' where all: "?all = (best, score) # rest'"
    unfolding process_extract_def by (cases ?all) auto
  have "sorted (map ?key ?all)" by (rule sorted_sort_key)
  with all have "\<forall>m \<in> set ?all. ?key (best, score) \<le> ?key m" by auto
  then have "\<forall>c \<in> set choices. scorer q c \<le> score"
    by (auto simp: extractWithoutOrder_def)
  with mem show ?thesis by simp
qed

lemma filter_Cons_find: "filter P xs = r # rs \<Longrightarrow> find P xs = Some r"
  by (induction xs) (auto split: if_splits)

lemma foldl_best:
  "foldl (\<lambda>best i. if snd best < snd i then i else best) m ms \<in> set (m # ms)
   \<and> (\<forall>i \<in> set (m # ms).
         (snd i :: nat) \<le> snd (foldl (\<lambda>best i. if snd best < snd i then i else best) m ms))"
proof (induction ms arbitrary: m)
  case Nil
  show ?case by simp
next
  case (Cons x xs)
  show ?case
  proof (cases "snd m < snd x")
    case True
    with Cons [of x] show ?thesis by auto
  next
    case False
    with Cons [of m] show ?thesis by auto
  qed
qed

lemma extractOne_Some:
  assumes "choices \<noteq> []"
  shows "\<exists>m. extractOne scorer q choices = Some (m, scorer q m) \<and> m \<in> set choices
           \<and> (\<forall>c \<in> set choices. scorer q c \<le> scorer q m)"
proof -
  from assms obtain c cs where ch: "choices = c # cs" by (cases choices) auto
  define pairs where "pairs = map (\<lambda>choice. (choice, scorer q choice)) cs"
  define r where
    "r = foldl (\<lambda>best i. if snd best < snd i then i else best) (c, scorer q c) pairs"
  have e: "extractOne scorer q choices = Some r"
    by (simp add: ch extractOne_def extractWithoutOrder_def r_def pairs_def)
  from foldl_best [of "(c, scorer q c)" pairs]
  have mem: "r \<in> set ((c, scorer q c) # pairs)"
    and mx: "\<forall>i \<in> set ((c, scorer q c) # pairs). snd i \<le> snd r"
    unfolding r_def by blast+
  have all: "set ((c, scorer q c) # pairs) = (\<lambda>c. (c, scorer q c)) ` set choices"
    by (simp add: ch pairs_def)
  from mem all obtain m where m: "m \<in> set choices" "r = (m, scorer q m)" by auto
  from mx have "\<forall>i \<in> (\<lambda>c. (c, scorer q c)) ` set choices. snd i \<le> snd r"
    by (simp only: all)
  then have "\<forall>c \<in> set choices. scorer q c \<le> snd r" by simp
  with m e show ?thesis by auto
qed

subsection \<open>\<^verbatim>\<open>get_ticker\<close>\<close>

text \<open>
  Claim C10. When the table read from \<^verbatim>\<open>data/companies.csv\<close> has a row whose title is
  not null, the list of fuzzy matches is not empty, its head \<open>best\<close> has the highest score
  among the titles, some row carries that title, and \<^verbatim>\<open>get_ticker\<close> returns the ticker
  of the first such row: it neither raises on the unassigned local nor returns
  \<^verbatim>\<open>None\<close>.
\<close>

theorem get_ticker_returns_best_match_ticker:
  assumes "\<exists>r \<in> set stock_name. fst r \<noteq> NaN"
  shows "\<exists>best score rest tick.
           process_extract scorer input_company (names_column stock_name)
             = (best, score) # rest
         \<and> (\<forall>c \<in> set (names_column stock_name). scorer input_company c \<le> score)
         \<and> find (\<lambda>r. fst r = Str best) stock_name = Some (Str best, tick)
         \<and> get_ticker scorer (Inr stock_name) input_company = Inr (Some tick)"
proof -
  from assms have "names_column stock_name \<noteq> []" by (simp add: names_column_nonempty)
  then have "process_extract scorer input_company (names_column stock_name) \<noteq> []"
    by (simp add: process_extract_Nil)
  then obtain best score rest where
    m: "process_extract scorer input_company (names_column stock_name) = (best, score) # rest"
    by (cases "process_extract scorer input_company (names_column stock_name)") auto
  from process_extract_head_max [OF m]
  have best: "best \<in> set (names_column stock_name)"
    and mx: "\<forall>c \<in> set (names_column stock_name). scorer input_company c \<le> score"
    by blast+
  from best have "\<exists>r \<in> set stock_name. fst r = Str best"
    by (force simp: set_names_column)
  then have "filter (\<lambda>r. fst r = Str best) stock_name \<noteq> []"
    by (simp add: filter_empty_conv)
  then obtain r rs where f: "filter (\<lambda>r. fst r = Str best) stock_name = r # rs"
    by (cases "filter (\<lambda>r. fst r = Str best) stock_name") auto
  then have "r \<in> set (filter (\<lambda>r. fst r = Str best) stock_name)" by simp
  then have "fst r = Str best" by simp
  then have r: "r = (Str best, snd r)" by (metis prod.collapse)
  from f have fi: "find (\<lambda>r. fst r = Str best) stock_name = Some r"
    by (rule filter_Cons_find)
  from m f have "get_ticker scorer (Inr stock_name) input_company = Inr (Some (snd r))"
    by (simp add: get_ticker_def Let_def)
  with m mx fi r show ?thesis by metis
qed

theorem get_ticker_returns_best_match_ticker_witness:
  "get_ticker (\<lambda>q c. if c = ''Nvidia Corp'' then 90 else 30)
     (Inr [(Str ''Apple Inc'', Str ''AAPL''), (NaN, Str ''ZZZ''),
           (Str ''Nvidia Corp'', Str ''NVDA''), (Str ''Nvidia Corp'', Str ''NVD2'')])
     ''nvidia'' = Inr (Some (Str ''NVDA''))"
proof -
  let ?sc = "\<lambda>(q :: string) c. if c = ''Nvidia Corp'' then 90 else (30 :: nat)"
  let ?tbl = "[(Str ''Apple Inc'', Str ''AAPL''), (NaN, Str ''ZZZ''),
           (Str ''Nvidia Corp'', Str ''NVDA''), (Str ''Nvidia Corp'', Str ''NVD2'')]"
  have h: "\<exists>r \<in> set ?tbl. fst r \<noteq> NaN" by simp
  from get_ticker_returns_best_match_ticker [OF h, of ?sc "''nvidia''"]
  obtain best score rest tick where
    m: "process_extract ?sc ''nvidia'' (names_column ?tbl) = (best, score) # rest"
    and f: "find (\<lambda>r. fst r = Str best) ?tbl = Some (Str best, tick)"
    and g: "get_ticker ?sc (Inr ?tbl) ''nvidia'' = Inr (Some tick)"
    by blast
  have "process_extract ?sc ''nvidia'' (names_column ?tbl)
        = [(''Nvidia Corp'', 90), (''Apple Inc'', 30)]"
    by code_simp
  with m have "best = ''Nvidia Corp''" by simp
  with f have "tick = Str ''NVDA''" by simp
  with g show ?thesis by simp
qed

subsection \<open>\<^verbatim>\<open>layoffs\<close>\<close>

text \<open>
  Claim C8 is what the caller expects and what \<^verbatim>\<open>process_and_match_companies\<close> does, and
  \<^verbatim>\<open>layoffs\<close> misses it: when the WARN table has a company name and every name scores
  below 80, the list \<^verbatim>\<open>matched_names\<close> is empty and \<^verbatim>\<open>matched_names[0]\<close> raises
  \<^verbatim>\<open>IndexError\<close>.
\<close>

theorem layoffs_below_threshold_raises:
  assumes "\<exists>r \<in> set df. fst r \<noteq> NaN"
    and "\<forall>c \<in> set (names_column df). scorer company_name c < 80"
  shows "layoffs scorer (Inr df) company_name
         = Inl (Exn IndexError ''list index out of range'')"
proof -
  let ?matches = "process_extract scorer company_name (names_column df)"
  from assms(1) have ne: "?matches \<noteq> []"
    by (simp add: names_column_nonempty process_extract_Nil)
  have "\<forall>m \<in> set ?matches. snd m < 80"
    using set_process_extract [of scorer company_name "names_column df"] assms(2) by auto
  then have "filter (\<lambda>m. 80 \<le> snd m) ?matches = []"
    by (auto simp: filter_empty_conv)
  with ne show ?thesis by (simp add: layoffs_def Let_def)
qed

theorem layoffs_below_threshold_raises_witness:
  "layoffs (\<lambda>q c. 45) (Inr [(Str ''Acme Corp'', [''2024-01-05'', ''120''])]) ''Globex''
   = Inl (Exn IndexError ''list index out of range'')"
proof -
  let ?df = "[(Str ''Acme Corp'', [''2024-01-05'', ''120''])]"
  have a: "\<exists>r \<in> set ?df. fst r \<noteq> NaN" by simp
  have b: "\<forall>c \<in> set (names_column ?df). (45 :: nat) < 80" by simp
  from layoffs_below_threshold_raises [of ?df "\<lambda>q c. 45" "''Globex''", OF a b]
  show ?thesis .
qed

subsection \<open>\<^verbatim>\<open>get_ticker_or_cik\<close>\<close>

lemma lookup_key: "m \<in> set (keys insertions) \<Longrightarrow> \<exists>v. lookup insertions m = Some v"
proof -
  assume "m \<in> set (keys insertions)"
  then have "m \<in> fst ` set (rev insertions)"
    by (simp add: keys_def set_unique)
  then show ?thesis
    unfolding lookup_def by (metis domD dom_map_of_conv_image_fst)
qed

lemma keys_nonempty: "insertions \<noteq> [] \<Longrightarrow> keys insertions \<noteq> []"
  by (cases insertions) (auto simp: keys_def unique_def)

lemma get_ticker_or_cik_unfold:
  assumes "company_data \<noteq> []"
    and "extractOne scorer q (keys (companies_of company_data)) = Some (m, s)"
    and "lookup (companies_of company_data) m = Some cik"
  shows "get_ticker_or_cik scorer (Some company_data) q
         = Inr (if 70 < s then Some (m, cik) else None)"
  using assms by (simp add: get_ticker_or_cik_def Let_def)

lemma get_ticker_or_cik_top:
  assumes "company_data \<noteq> []"
  shows "\<exists>m cik. m \<in> set (keys (companies_of company_data))
           \<and> (\<forall>c \<in> set (keys (companies_of company_data)). scorer q c \<le> scorer q m)
           \<and> lookup (companies_of company_data) m = Some cik
           \<and> get_ticker_or_cik scorer (Some company_data) q
               = Inr (if 70 < scorer q m then Some (m, cik) else None)"
proof -
  from assms have "keys (companies_of company_data) \<noteq> []"
    by (simp add: keys_nonempty companies_of_def)
  from extractOne_Some [OF this, of scorer q] obtain m where
    e: "extractOne scorer q (keys (companies_of company_data)) = Some (m, scorer q m)"
    and mem: "m \<in> set (keys (companies_of company_data))"
    and mx: "\<forall>c \<in> set (keys (companies_of company_data)). scorer q c \<le> scorer q m"
    by blast
  from lookup_key [OF mem] obtain cik where c: "lookup (companies_of company_data) m = Some cik"
    by blast
  from get_ticker_or_cik_unfold [OF assms e c] mem mx c show ?thesis by blast
qed

text \<open>
  Claim C2, as amended. The gate of \<^verbatim>\<open>get_ticker_or_cik\<close> is strict: with company data
  at hand, the result is the title \<open>m\<close> of highest score and its CIK when that score is
  greater than 70, so from 71 on, and the pair of \<^verbatim>\<open>None\<close> when it is 70 or less.
\<close>

theorem get_ticker_or_cik_strict_threshold:
  assumes "company_data \<noteq> []"
  shows "\<exists>m cik. m \<in> set (keys (companies_of company_data))
           \<and> (\<forall>c \<in> set (keys (companies_of company_data)). scorer q c \<le> scorer q m)
           \<and> lookup (companies_of company_data) m = Some cik
           \<and> get_ticker_or_cik scorer (Some company_data) q
               = Inr (if 70 < scorer q m then Some (m, cik) else None)"
  using assms by (rule get_ticker_or_cik_top)

theorem get_ticker_or_cik_strict_threshold_witness:
  "get_ticker_or_cik (\<lambda>q c. 71)
     (Some [(''0'', \<lparr>cik_str = 1045810, ticker = ''NVDA'', title = ''NVIDIA CORP''\<rparr>)])
     ''Nvidia''
   = Inr (Some (''NVIDIA CORP'', 1045810))"
proof -
  let ?data = "[(''0'', \<lparr>cik_str = 1045810, ticker = ''NVDA'', title = ''NVIDIA CORP''\<rparr>)]"
  have ne: "?data \<noteq> []" by simp
  have k: "keys (companies_of ?data) = [''NVIDIA CORP'']" by code_simp
  have l: "lookup (companies_of ?data) ''NVIDIA CORP'' = Some 1045810" by code_simp
  from get_ticker_or_cik_strict_threshold [OF ne, of "\<lambda>q c. 71" "''Nvidia''"]
  obtain m cik where m: "m \<in> set (keys (companies_of ?data))"
    and c: "lookup (companies_of ?data) m = Some cik"
    and r: "get_ticker_or_cik (\<lambda>q c. 71) (Some ?data) ''Nvidia''
            = Inr (if (70 :: nat) < 71 then Some (m, cik) else None)"
    by blast
  from m k have "m = ''NVIDIA CORP''" by simp
  with c l r show ?thesis by simp
qed

text \<open>
  Claim C2 as stated fails at the boundary: a best score of exactly 70 is rejected.
\<close>

theorem get_ticker_or_cik_rejects_score_70:
  "extractOne (\<lambda>q c. 70) ''Nvidia''
     (keys (companies_of
        [(''0'', \<lparr>cik_str = 1045810, ticker = ''NVDA'', title = ''NVIDIA CORP''\<rparr>)]))
     = Some (''NVIDIA CORP'', 70)
   \<and> get_ticker_or_cik (\<lambda>q c. 70)
       (Some [(''0'', \<lparr>cik_str = 1045810, ticker = ''NVDA'', title = ''NVIDIA CORP''\<rparr>)])
       ''Nvidia''
     = Inr None"
  by code_simp

text \<open>
  Claim C3, as amended. There is no ambiguous outcome and no margin: whenever some title
  scores above 70, \<^verbatim>\<open>get_ticker_or_cik\<close> accepts one title of highest score, with its CIK,
  whatever the other titles score.
\<close>

theorem get_ticker_or_cik_accepts_top_only:
  assumes "company_data \<noteq> []"
    and "\<exists>c \<in> set (keys (companies_of company_data)). 70 < scorer q c"
  shows "\<exists>m cik. get_ticker_or_cik scorer (Some company_data) q = Inr (Some (m, cik))
           \<and> m \<in> set (keys (companies_of company_data))
           \<and> (\<forall>c \<in> set (keys (companies_of company_data)). scorer q c \<le> scorer q m)"
proof -
  from get_ticker_or_cik_top [OF assms(1), of scorer q] obtain m cik where
    mem: "m \<in> set (keys (companies_of company_data))"
    and mx: "\<forall>c \<in> set (keys (companies_of company_data)). scorer q c \<le> scorer q m"
    and r: "get_ticker_or_cik scorer (Some company_data) q
            = Inr (if 70 < scorer q m then Some (m, cik) else None)"
    by blast
  from assms(2) mx have "70 < scorer q m" by (meson less_le_trans)
  with r mem mx show ?thesis by auto
qed

theorem get_ticker_or_cik_accepts_top_only_witness:
  "get_ticker_or_cik (\<lambda>q c. if c = ''Acme Corp'' then 95 else 80)
     (Some [(''0'', \<lparr>cik_str = 11, ticker = ''ACME'', title = ''Acme Corp''\<rparr>),
            (''1'', \<lparr>cik_str = 22, ticker = ''ACMH'', title = ''Acme Holdings''\<rparr>)])
     ''Acme''
   = Inr (Some (''Acme Corp'', 11))"
proof -
  let ?sc = "\<lambda>(q :: string) c. if c = ''Acme Corp'' then 95 else (80 :: nat)"
  let ?data = "[(''0'', \<lparr>cik_str = 11, ticker = ''ACME'', title = ''Acme Corp''\<rparr>),
            (''1'', \<lparr>cik_str = 22, ticker = ''ACMH'', title = ''Acme Holdings''\<rparr>)]"
  have ne: "?data \<noteq> []" by simp
  have k: "keys (companies_of ?data) = [''Acme Corp'', ''Acme Holdings'']" by code_simp
  then have hi: "\<exists>c \<in> set (keys (companies_of ?data)). 70 < ?sc ''Acme'' c" by simp
  from get_ticker_or_cik_accepts_top_only [of ?data ?sc "''Acme''", OF ne hi]
  obtain m cik where r: "get_ticker_or_cik ?sc (Some ?data) ''Acme'' = Inr (Some (m, cik))"
    by blast
  have "get_ticker_or_cik ?sc (Some ?data) ''Acme'' = Inr (Some (''Acme Corp'', 11))"
    by code_simp
  with r show ?thesis by simp
qed

text \<open>
  Claim C3 as stated fails: with two titles scoring 95 and 94 the top one is accepted.
\<close>

theorem get_ticker_or_cik_accepts_close_runner_up:
  "extractWithoutOrder (\<lambda>q c. if c = ''Acme Corp'' then 95 else 94) ''Acme''
     (keys (companies_of
        [(''0'', \<lparr>cik_str = 11, ticker = ''ACME'', title = ''Acme Corp''\<rparr>),
         (''1'', \<lparr>cik_str = 22, ticker = ''ACMH'', title = ''Acme Holdings''\<rparr>)]))
     = [(''Acme Corp'', 95), (''Acme Holdings'', 94)]
   \<and> get_ticker_or_cik (\<lambda>q c. if c = ''Acme Corp'' then 95 else 94)
       (Some [(''0'', \<lparr>cik_str = 11, ticker = ''ACME'', title = ''Acme Corp''\<rparr>),
              (''1'', \<lparr>cik_str = 22, ticker = ''ACMH'', title = ''Acme Holdings''\<rparr>)])
       ''Acme''
     = Inr (Some (''Acme Corp'', 11))"
  by code_simp

subsection \<open>\<^verbatim>\<open>get_company_jobs\<close>\<close>

lemma stop_after_attempt_3:
  assumes "job_search 1 = Inl e1" and "job_search 2 = Inl e2"
  shows "stop_after_attempt 3 job_search
         = (case job_search 3 of
              Inr v \<Rightarrow> (Inr v, 3)
            | Inl e3 \<Rightarrow> (Inl (RetryError_of e3), 3))"
proof -
  have "stop_after_attempt 3 job_search = retrying (Suc (Suc 0)) job_search (Suc 0)"
    by (simp add: stop_after_attempt_def numeral_3_eq_3)
  also from assms have "\<dots> = retrying 0 job_search 3"
    by (simp add: numeral_2_eq_2 numeral_3_eq_3)
  finally show ?thesis by (simp split: sum.split)
qed

lemma get_company_jobs_at_most_three: "snd (get_company_jobs job_search) \<le> 3"
proof -
  have "snd (stop_after_attempt 3 job_search) \<le> 3"
    by (simp add: stop_after_attempt_def numeral_3_eq_3 split: sum.split)
  then show ?thesis
    by (cases "stop_after_attempt 3 job_search")
       (auto simp: get_company_jobs_def split: sum.split)
qed

text \<open>
  Claim C4, as amended. When the first two calls of the job search raise, exactly three
  calls are made. If the third returns, \<^verbatim>\<open>get_company_jobs\<close> returns its value; if the
  third raises as well, the retry wrapper raises \<^verbatim>\<open>RetryError\<close> around that last
  exception and \<^verbatim>\<open>get_company_jobs\<close> catches it and returns the empty data frame: it
  does not raise.
\<close>

theorem get_company_jobs_three_attempts:
  assumes "job_search 1 = Inl e1" and "job_search 2 = Inl e2"
  shows "get_company_jobs job_search
         = (case job_search 3 of
              Inr jobs \<Rightarrow> (Inr jobs, 3)
            | Inl e3 \<Rightarrow> (Inr (Some []), 3))"
  by (simp add: get_company_jobs_def stop_after_attempt_3 [OF assms] split: sum.split)

theorem get_company_jobs_three_attempts_witness:
  "get_company_jobs
     (\<lambda>k. if k < 3 then Inl (Exn OtherError ''timed out'')
          else Inr (Some [(Str ''NVIDIA'', [''Software Engineer'', ''Santa Clara''])]))
   = (Inr (Some [(Str ''NVIDIA'', [''Software Engineer'', ''Santa Clara''])]), 3)"
proof -
  let ?f = "\<lambda>k :: nat. if k < 3 then Inl (Exn OtherError ''timed out'')
          else Inr (Some [(Str ''NVIDIA'', [''Software Engineer'', ''Santa Clara''])])"
  have a: "?f 1 = Inl (Exn OtherError ''timed out'')" by simp
  have b: "?f 2 = Inl (Exn OtherError ''timed out'')" by simp
  from get_company_jobs_three_attempts [of ?f, OF a b] show ?thesis by simp
qed

text \<open>
  Claim C4 as stated fails for a search that always raises: after the third attempt the
  wrapper raises, and \<^verbatim>\<open>get_company_jobs\<close> returns the empty frame instead of raising.
\<close>

theorem get_company_jobs_swallows_failure:
  "stop_after_attempt 3 (\<lambda>k. Inl (Exn OtherError ''timed out'') :: exn + sheet option)
     = (Inl (RetryError_of (Exn OtherError ''timed out'')), 3)
   \<and> get_company_jobs (\<lambda>k. Inl (Exn OtherError ''timed out'') :: exn + sheet option)
     = (Inr (Some []), 3)"
  by code_simp

subsection \<open>\<^verbatim>\<open>load_cache\<close>\<close>

text \<open>
  Claim C5. For a cache entry whose time stamp reads as the naive time \<open>fetched_at\<close>,
  \<^verbatim>\<open>load_cache\<close> returns the entry's \<^verbatim>\<open>companies\<close> when \<open>now - fetched_at\<close> is less
  than seven days and \<^verbatim>\<open>None\<close> when it is seven days or more; without a cache file it
  returns \<^verbatim>\<open>None\<close>.
\<close>

theorem load_cache_ttl:
  assumes "dict_get entry ''timestamp'' = JStr s"
    and "fromisoformat s = Some (Naive fetched_at)"
  shows "load_cache fromisoformat (Parsed (JObj entry)) now
           = Inr (if now - fetched_at < CACHE_DURATION then dict_get entry ''companies''
                  else JNull)
         \<and> load_cache fromisoformat NoFile now = Inr JNull"
  using assms by (simp add: load_cache_def)

theorem load_cache_ttl_witness:
  "load_cache (\<lambda>s. if s = ''1970-01-01T00:00:00'' then Some (Naive 0) else None)
     (save_cache (\<lambda>t. ''1970-01-01T00:00:00'') (JObj [(''0'', JStr ''NVIDIA CORP'')]) 0)
     (3600 * 1000000)
   = Inr (JObj [(''0'', JStr ''NVIDIA CORP'')])
   \<and> load_cache (\<lambda>s. if s = ''1970-01-01T00:00:00'' then Some (Naive 0) else None)
     (save_cache (\<lambda>t. ''1970-01-01T00:00:00'') (JObj [(''0'', JStr ''NVIDIA CORP'')]) 0)
     (8 * 24 * 3600 * 1000000)
   = Inr JNull"
proof -
  let ?f = "\<lambda>s. if s = ''1970-01-01T00:00:00'' then Some (Naive 0) else None"
  let ?entry = "[(''timestamp'', JStr ''1970-01-01T00:00:00''),
                 (''companies'', JObj [(''0'', JStr ''NVIDIA CORP'')])]"
  have a: "dict_get ?entry ''timestamp'' = JStr ''1970-01-01T00:00:00''"
    by (simp add: dict_get_def)
  have b: "?f ''1970-01-01T00:00:00'' = Some (Naive 0)" by simp
  have c: "dict_get ?entry ''companies'' = JObj [(''0'', JStr ''NVIDIA CORP'')]"
    by (simp add: dict_get_def)
  from load_cache_ttl [of ?entry _ ?f 0 "3600 * 1000000", OF a b]
       load_cache_ttl [of ?entry _ ?f 0 "8 * 24 * 3600 * 1000000", OF a b] c
  show ?thesis by (simp add: save_cache_def CACHE_DURATION_def)
qed

text \<open>
  Claim C6, as amended. \<^verbatim>\<open>load_cache\<close> has no handler: it returns, a payload or
  \<^verbatim>\<open>None\<close>, exactly when there is no cache file or the file holds a JSON object whose
  \<^verbatim>\<open>timestamp\<close> is a string that reads as a naive time. On every other state of the file
  (it cannot be opened, it is not JSON, it is not an object, the time stamp is missing, is
  not a string or does not parse) it raises.
\<close>

theorem load_cache_returns_iff:
  "(\<exists>v. load_cache fromisoformat file now = Inr v)
   = (file = NoFile
      \<or> (\<exists>entry s t. file = Parsed (JObj entry) \<and> dict_get entry ''timestamp'' = JStr s
            \<and> fromisoformat s = Some (Naive t)))"
  by (auto simp: load_cache_def
      split: cache_file.splits json.splits option.splits datetime.splits)

theorem load_cache_returns_iff_witness:
  "\<not> (\<exists>v. load_cache (\<lambda>s. None) Malformed 0 = Inr v)"
  using load_cache_returns_iff [of "\<lambda>s. None" Malformed 0] by simp

text \<open>
  Claim C6 as stated fails: malformed JSON, a missing time stamp and an unparsable time
  stamp each make \<^verbatim>\<open>load_cache\<close> raise.
\<close>

theorem load_cache_raises_on_corrupt:
  "load_cache (\<lambda>s. None) Malformed 0 = Inl (Exn JSONDecodeError ''Expecting value'')
   \<and> load_cache (\<lambda>s. None) (Parsed (JObj [(''companies'', JObj [])])) 0
     = Inl (Exn TypeError ''fromisoformat: argument must be str'')
   \<and> load_cache (\<lambda>s. None)
       (Parsed (JObj [(''timestamp'', JStr ''last week''), (''companies'', JObj [])])) 0
     = Inl (Exn ValueError ''Invalid isoformat string'')"
  by (simp add: load_cache_def dict_get_def)

subsection \<open>\<^verbatim>\<open>fetch_all_data\<close>\<close>




end
